theory Spec2Isabelle
  imports Main "HOL-Library.Sublist" "HOL-Library.Word"
begin

section \<open>The GitHub repository reader (loader\_hub/github\_repo/base.py)\<close>

text \<open>
  A shallow embedding of \<^verbatim>\<open>GithubRepositoryReader\<close>. Python's \<^verbatim>\<open>str\<close> is
  \<^typ>\<open>string\<close>, \<^verbatim>\<open>bytes\<close> is a list of 8-bit words, an exception is a value of
  \<open>error\<close> returned on the left of a sum. The reader's collaborators are parameters:
  the GitHub client is a record of functions, and the names the module imports
  (\<^verbatim>\<open>get_file_extension\<close>, \<^verbatim>\<open>DEFAULT_FILE_EXTRACTOR\<close>,
  \<^verbatim>\<open>BufferedGitBlobDataIterator\<close>) and the standard library calls whose outcome
  the code branches on (\<^verbatim>\<open>base64.b64decode\<close>, \<^verbatim>\<open>bytes.decode\<close>,
  \<^verbatim>\<open>tempfile\<close>) are the fields of an \<open>environment\<close>. The output of
  \<^verbatim>\<open>print_if_verbose\<close> and of the logger is not modelled.
\<close>

subsection \<open>Exceptions\<close>

text \<open>
  \<open>TypeError\<close> is what unpacking \<^verbatim>\<open>None\<close> raises; \<open>ValueError\<close> and
  \<open>AssertionError\<close> carry the message the source gives them; \<open>binascii_Error\<close>,
  \<open>UnicodeDecodeError\<close> and \<open>FileNotFoundError\<close> are the library's;
  \<open>Exception\<close> is any other exception of a collaborator.
\<close>

datatype error =
    TypeError
  | ValueError string
  | AssertionError string
  | binascii_Error
  | UnicodeDecodeError
  | FileNotFoundError
  | Exception string

subsection \<open>Data\<close>

type_synonym bytes = "8 word list"

text \<open>\<^verbatim>\<open>class FilterType(enum.Enum)\<close>: the enumeration has exactly these two members,
  so the final \<^verbatim>\<open>else: raise ValueError("Unknown filter type ...")\<close> of the two checks
  is not reachable with a member of it.\<close>

datatype FilterType = EXCLUDE | INCLUDE

type_synonym filter_spec = "string list \<times> FilterType"

text \<open>\<^verbatim>\<open>GitTreeResponseModel.GitTreeObject\<close>: the fields the reader reads.\<close>

record GitTreeObject =
  obj_path :: string
  obj_type :: string
  obj_sha :: string

text \<open>\<^verbatim>\<open>GitBlobResponseModel\<close>: the fields the reader reads.\<close>

record GitBlobResponseModel =
  blob_content :: string
  blob_encoding :: string
  blob_sha :: string

text \<open>\<^verbatim>\<open>Document(text=..., doc_id=..., extra_info={...})\<close>; the dictionary keeps its
  insertion order as an association list.\<close>

record Document =
  doc_text :: string
  doc_id :: string
  extra_info :: "(string \<times> string) list"

text \<open>The file system, as far as the reader touches it: regular files by path.\<close>

type_synonym filesystem = "string \<rightharpoonup> bytes"

text \<open>A parser of \<^verbatim>\<open>DEFAULT_FILE_EXTRACTOR\<close>: \<^verbatim>\<open>init_parser()\<close> returns nothing or
  raises; \<^verbatim>\<open>parse_file(path)\<close> reads the file system and returns text segments or
  raises.\<close>

record parser =
  init_parser :: "error option"
  parse_file :: "filesystem \<Rightarrow> string \<Rightarrow> error + string list"

text \<open>The client: every call takes owner, repository and a name or sha, and returns
  or raises. \<^verbatim>\<open>get_commit\<close> and \<^verbatim>\<open>get_branch\<close> are reduced to the one field
  the reader reads of their response, the sha of the commit's tree.\<close>

record BaseGithubClient =
  get_commit :: "string \<Rightarrow> string \<Rightarrow> string \<Rightarrow> error + string"
  get_branch :: "string \<Rightarrow> string \<Rightarrow> string \<Rightarrow> error + string"
  get_tree :: "string \<Rightarrow> string \<Rightarrow> string \<Rightarrow> error + GitTreeObject list"
  get_blob :: "string \<Rightarrow> string \<Rightarrow> string \<Rightarrow> error + GitBlobResponseModel"

text \<open>The calls the reader itself makes on the client, in order.\<close>

datatype api_call =
    GetCommit string string string
  | GetBranch string string string
  | GetTree string string string

text \<open>
  The imported names. \<open>BufferedGitBlobDataIterator\<close> gives the finite sequence of
  what each \<^verbatim>\<open>__anext__\<close> of the iterator does before \<^verbatim>\<open>StopAsyncIteration\<close>:
  yield a pair (\<open>Inr\<close>) or raise (\<open>Inl\<close>). \<open>b64decode\<close> raises
  \<^verbatim>\<open>binascii.Error\<close> on malformed input and may raise otherwise;
  \<open>utf8_decode\<close> is \<^verbatim>\<open>bytes.decode("utf-8")\<close>, \<open>None\<close> for
  \<^verbatim>\<open>UnicodeDecodeError\<close>. \<open>mkdtemp\<close> is the path \<^verbatim>\<open>tempfile\<close> picks for a
  new directory and \<open>mktemp_name\<close> the base name it picks for a new file.
\<close>

record environment =
  get_file_extension :: "string \<Rightarrow> string"
  DEFAULT_FILE_EXTRACTOR :: "string \<Rightarrow> parser option"
  BufferedGitBlobDataIterator ::
    "BaseGithubClient \<Rightarrow> string \<Rightarrow> string \<Rightarrow> (GitTreeObject \<times> string) list \<Rightarrow> int
      \<Rightarrow> (error + GitBlobResponseModel \<times> string) list"
  b64decode :: "string \<Rightarrow> error + bytes"
  utf8_decode :: "bytes \<Rightarrow> string option"
  mkdtemp :: "filesystem \<Rightarrow> string"
  mktemp_name :: "filesystem \<Rightarrow> string"

text \<open>The reader's attributes (\<^verbatim>\<open>self._owner\<close>, ...).\<close>

record GithubRepositoryReader =
  owner :: string
  repo :: string
  use_parser :: bool
  verbose :: bool
  concurrent_requests :: int
  filter_directories :: "filter_spec option"
  filter_file_extensions :: "filter_spec option"
  github_client :: BaseGithubClient

subsection \<open>String helpers of Python\<close>

definition startswith :: "string \<Rightarrow> string \<Rightarrow> bool" where
  "startswith s p = prefix p s"

text \<open>\<^verbatim>\<open>os.path.join(a, b)\<close> on POSIX.\<close>

definition os_path_join :: "string \<Rightarrow> string \<Rightarrow> string" where
  "os_path_join a b =
     (if startswith b ''/'' then b
      else if a = [] \<or> startswith (rev a) ''/'' then a @ b
      else a @ ''/'' @ b)"

text \<open>\<^verbatim>\<open>s.split(sep)\<close> for a one-character separator: never the empty list.\<close>

fun str_split :: "char \<Rightarrow> string \<Rightarrow> string list" where
  "str_split sep [] = [[]]"
| "str_split sep (c # cs) =
     (if c = sep then [] # str_split sep cs
      else (case str_split sep cs of
              [] \<Rightarrow> [[c]]
            | w # ws \<Rightarrow> (c # w) # ws))"

text \<open>\<^verbatim>\<open>sep.join(xs)\<close>.\<close>

fun str_join :: "string \<Rightarrow> string list \<Rightarrow> string" where
  "str_join sep [] = []"
| "str_join sep [x] = x"
| "str_join sep (x # y # ys) = x @ sep @ str_join sep (y # ys)"

subsection \<open>Construction\<close>

text \<open>\<^verbatim>\<open>__init__\<close> stores its arguments; it checks none of them.\<close>

definition init ::
  "BaseGithubClient \<Rightarrow> string \<Rightarrow> string \<Rightarrow> bool \<Rightarrow> bool \<Rightarrow> int
    \<Rightarrow> filter_spec option \<Rightarrow> filter_spec option \<Rightarrow> GithubRepositoryReader" where
  "init client own rep use_p verb concurrent filter_dirs filter_exts =
     \<lparr> owner = own, repo = rep, use_parser = use_p, verbose = verb,
       concurrent_requests = concurrent, filter_directories = filter_dirs,
       filter_file_extensions = filter_exts, github_client = client \<rparr>"

subsection \<open>The filters\<close>

text \<open>\<^verbatim>\<open>_check_filter_directories\<close>: the first statement unpacks
  \<^verbatim>\<open>self._filter_directories\<close>, which raises \<^verbatim>\<open>TypeError\<close> on \<^verbatim>\<open>None\<close>.\<close>

definition check_filter_directories :: "GithubRepositoryReader \<Rightarrow> string \<Rightarrow> error + bool" where
  "check_filter_directories self tree_obj_path =
     (case filter_directories self of
        None \<Rightarrow> Inl TypeError
      | Some (dirs, filter_type) \<Rightarrow>
          (case filter_type of
             EXCLUDE \<Rightarrow>
               Inr (\<not> list_ex (\<lambda>directory. startswith tree_obj_path directory
                                    \<or> startswith directory tree_obj_path) dirs)
           | INCLUDE \<Rightarrow>
               Inr (list_ex (\<lambda>directory. startswith tree_obj_path directory
                                  \<or> startswith directory tree_obj_path) dirs)))"

text \<open>\<^verbatim>\<open>_check_filter_file_extensions\<close>.\<close>

definition check_filter_file_extensions ::
  "environment \<Rightarrow> GithubRepositoryReader \<Rightarrow> string \<Rightarrow> error + bool" where
  "check_filter_file_extensions env self tree_obj_path =
     (case filter_file_extensions self of
        None \<Rightarrow> Inl TypeError
      | Some (exts, filter_type) \<Rightarrow>
          (case filter_type of
             EXCLUDE \<Rightarrow> Inr (get_file_extension env tree_obj_path \<notin> set exts)
           | INCLUDE \<Rightarrow> Inr (get_file_extension env tree_obj_path \<in> set exts)))"

text \<open>\<^verbatim>\<open>_allow_tree_obj\<close>: the guarded entry to the two checks. Nothing in the module
  calls it.\<close>

definition allow_tree_obj ::
  "environment \<Rightarrow> GithubRepositoryReader \<Rightarrow> string \<Rightarrow> error + bool" where
  "allow_tree_obj env self tree_obj_path =
     (if filter_directories self \<noteq> None then check_filter_directories self tree_obj_path
      else if filter_file_extensions self \<noteq> None
        then check_filter_file_extensions env self tree_obj_path
      else Inr True)"

subsection \<open>The tree walk\<close>

text \<open>
  \<^verbatim>\<open>_recurse_tree\<close>. The recursion follows the shas the client returns, so it is
  bounded by fuel: \<open>None\<close> is a walk that has not returned within the bound. One unit
  is spent per tree fetched. \<open>recurse_tree_loop\<close> is the \<^verbatim>\<open>for tree_obj in tree_data.tree\<close>
  loop, with \<^verbatim>\<open>blobs_and_full_paths\<close> as accumulator. The log records the
  \<^verbatim>\<open>get_tree\<close> calls.
\<close>

fun recurse_tree ::
  "environment \<Rightarrow> nat \<Rightarrow> GithubRepositoryReader \<Rightarrow> string \<Rightarrow> string \<Rightarrow> nat \<Rightarrow> api_call list
    \<Rightarrow> (api_call list \<times> (error + (GitTreeObject \<times> string) list)) option"
and recurse_tree_loop ::
  "environment \<Rightarrow> nat \<Rightarrow> GithubRepositoryReader \<Rightarrow> string \<Rightarrow> nat \<Rightarrow> GitTreeObject list
    \<Rightarrow> (GitTreeObject \<times> string) list \<Rightarrow> api_call list
    \<Rightarrow> (api_call list \<times> (error + (GitTreeObject \<times> string) list)) option"
where
  "recurse_tree env 0 self tree_sha current_path current_depth log = None"
| "recurse_tree env (Suc fuel) self tree_sha current_path current_depth log =
     (case get_tree (github_client self) (owner self) (repo self) tree_sha of
        Inl e \<Rightarrow> Some (log @ [GetTree (owner self) (repo self) tree_sha], Inl e)
      | Inr tree_data \<Rightarrow>
          recurse_tree_loop env fuel self current_path current_depth tree_data []
            (log @ [GetTree (owner self) (repo self) tree_sha]))"
| "recurse_tree_loop env fuel self current_path current_depth [] blobs_and_full_paths log =
     Some (log, Inr blobs_and_full_paths)"
| "recurse_tree_loop env fuel self current_path current_depth (tree_obj # rest)
       blobs_and_full_paths log =
     (let file_path = os_path_join current_path (obj_path tree_obj) in
      if obj_type tree_obj = ''tree'' then
        (case check_filter_directories self file_path of
           Inl e \<Rightarrow> Some (log, Inl e)
         | Inr False \<Rightarrow>
             recurse_tree_loop env fuel self current_path current_depth rest
               blobs_and_full_paths log
         | Inr True \<Rightarrow>
             (case recurse_tree env fuel self (obj_sha tree_obj) file_path
                     (current_depth + 1) log of
                None \<Rightarrow> None
              | Some (log', Inl e) \<Rightarrow> Some (log', Inl e)
              | Some (log', Inr sub) \<Rightarrow>
                  recurse_tree_loop env fuel self current_path current_depth rest
                    (blobs_and_full_paths @ sub) log'))
      else if obj_type tree_obj = ''blob'' then
        (case check_filter_file_extensions env self file_path of
           Inl e \<Rightarrow> Some (log, Inl e)
         | Inr False \<Rightarrow>
             recurse_tree_loop env fuel self current_path current_depth rest
               blobs_and_full_paths log
         | Inr True \<Rightarrow>
             recurse_tree_loop env fuel self current_path current_depth rest
               (blobs_and_full_paths @ [(tree_obj, file_path)]) log)
      else
        recurse_tree_loop env fuel self current_path current_depth rest
          blobs_and_full_paths log)"

subsection \<open>Temporary files\<close>

text \<open>
  \<^verbatim>\<open>NamedTemporaryFile(dir=..., suffix=..., mode="w+b", delete=False)\<close> creates an
  empty file in the directory and gives its name; \<^verbatim>\<open>os.remove\<close> deletes a file and
  raises when there is none; leaving \<^verbatim>\<open>with tempfile.TemporaryDirectory()\<close> deletes
  whatever lies under the directory.
\<close>

definition NamedTemporaryFile ::
  "environment \<Rightarrow> filesystem \<Rightarrow> string \<Rightarrow> string \<Rightarrow> filesystem \<times> string" where
  "NamedTemporaryFile env fs dir suff =
     (let name = os_path_join dir (''tmp'' @ mktemp_name env fs @ suff)
      in (fs(name \<mapsto> []), name))"

definition os_remove :: "filesystem \<Rightarrow> string \<Rightarrow> error + filesystem" where
  "os_remove fs p =
     (case fs p of None \<Rightarrow> Inl FileNotFoundError | Some old \<Rightarrow> Inr (fs(p := None)))"

definition rmtree :: "filesystem \<Rightarrow> string \<Rightarrow> filesystem" where
  "rmtree fs dir = (\<lambda>p. if startswith p (dir @ ''/'') then None else fs p)"

text \<open>The name of the temporary file \<^verbatim>\<open>_parse_supported_file\<close> gets for a path: in
  the new directory, with the suffix \<^verbatim>\<open>f".{file_extension}"\<close>.\<close>

definition tmpfile_name_for :: "environment \<Rightarrow> filesystem \<Rightarrow> string \<Rightarrow> string" where
  "tmpfile_name_for env fs file_path =
     os_path_join (mkdtemp env fs)
       (''tmp'' @ mktemp_name env fs @ ''.'' @ get_file_extension env file_path)"

subsection \<open>Document synthesis\<close>

text \<open>
  \<^verbatim>\<open>_parse_supported_file\<close>. \<^verbatim>\<open>init_parser\<close> is called outside the
  \<^verbatim>\<open>try\<close>; \<^verbatim>\<open>except Exception\<close> turns every exception of \<^verbatim>\<open>parse_file\<close>
  into \<^verbatim>\<open>parsed_file = None\<close>; the \<^verbatim>\<open>finally\<close> removes the file on both paths,
  and the directory is cleaned up when the \<^verbatim>\<open>with\<close> block is left, also by an
  exception.
\<close>

definition parse_supported_file ::
  "environment \<Rightarrow> GithubRepositoryReader \<Rightarrow> filesystem \<Rightarrow> string \<Rightarrow> bytes \<Rightarrow> string \<Rightarrow> string
    \<Rightarrow> filesystem \<times> (error + Document option)" where
  "parse_supported_file env self fs file_path file_content tree_sha tree_path =
     (let file_extension = get_file_extension env file_path in
      case DEFAULT_FILE_EXTRACTOR env file_extension of
        None \<Rightarrow> (fs, Inr None)
      | Some parser \<Rightarrow>
          (case init_parser parser of
             Some e \<Rightarrow> (fs, Inl e)
           | None \<Rightarrow>
               (let tmpdirname = mkdtemp env fs;
                    (fs1, tmpfile_name) =
                       NamedTemporaryFile env fs tmpdirname (''.'' @ file_extension);
                    fs2 = fs1(tmpfile_name \<mapsto> file_content);
                    parsed_file =
                      (case parse_file parser fs2 tmpfile_name of
                         Inl e \<Rightarrow> None
                       | Inr segments \<Rightarrow> Some (str_join [CHR 0x0A, CHR 0x0A] segments))
                in case os_remove fs2 tmpfile_name of
                     Inl e \<Rightarrow> (rmtree fs2 tmpdirname, Inl e)
                   | Inr fs3 \<Rightarrow>
                       (case parsed_file of
                          None \<Rightarrow> (rmtree fs3 tmpdirname, Inr None)
                        | Some joined \<Rightarrow>
                            (rmtree fs3 tmpdirname,
                             Inr (Some \<lparr> doc_text = joined, doc_id = tree_sha,
                                         extra_info = [(''file_path'', file_path),
                                                       (''file_name'', tree_path)] \<rparr>))))))"

text \<open>What one pass of the \<^verbatim>\<open>async for\<close> loop of \<^verbatim>\<open>_generate_documents\<close> ends in:
  \<^verbatim>\<open>continue\<close> without a document, \<^verbatim>\<open>documents.append\<close>, or an exception.\<close>

datatype step = Skip | Emit Document | Raise error

text \<open>The body of that loop, for one pair the iterator has yielded.\<close>

definition generate_document ::
  "environment \<Rightarrow> GithubRepositoryReader \<Rightarrow> filesystem \<Rightarrow> GitBlobResponseModel \<Rightarrow> string
    \<Rightarrow> filesystem \<times> step" where
  "generate_document env self fs blob_data full_path =
     (if blob_encoding blob_data \<noteq> ''base64'' then
        (fs, Raise (AssertionError
                      (''blob encoding '' @ blob_encoding blob_data @ '' not supported'')))
      else
        (case b64decode env (blob_content blob_data) of
           Inl e \<Rightarrow> (if e = binascii_Error then (fs, Skip) else (fs, Raise e))
         | Inr raw \<Rightarrow>
             (let decoded_bytes = Some raw in
              case (if use_parser self
                    then parse_supported_file env self fs full_path raw
                           (blob_sha blob_data) full_path
                    else (fs, Inr None)) of
                (fs', Inl e) \<Rightarrow> (fs', Raise e)
              | (fs', Inr (Some document)) \<Rightarrow> (fs', Emit document)
              | (fs', Inr None) \<Rightarrow>
                  (case decoded_bytes of
                     None \<Rightarrow> (fs', Raise (ValueError ''decoded_bytes is None''))
                   | Some bs \<Rightarrow>
                       (case utf8_decode env bs of
                          None \<Rightarrow> (fs', Skip)
                        | Some decoded_text \<Rightarrow>
                            (fs', Emit \<lparr> doc_text = decoded_text,
                                         doc_id = blob_sha blob_data,
                                         extra_info =
                                           [(''file_path'', full_path),
                                            (''file_name'',
                                             last (str_split CHR ''/'' full_path))] \<rparr>))))))"

text \<open>The loop over what the iterator does; an exception of the iterator or of the body
  ends it, and the documents gathered so far are not returned.\<close>

fun generate_documents_loop ::
  "environment \<Rightarrow> GithubRepositoryReader \<Rightarrow> filesystem
    \<Rightarrow> (error + GitBlobResponseModel \<times> string) list \<Rightarrow> Document list
    \<Rightarrow> filesystem \<times> (error + Document list)" where
  "generate_documents_loop env self fs [] documents = (fs, Inr documents)"
| "generate_documents_loop env self fs (Inl e # rest) documents = (fs, Inl e)"
| "generate_documents_loop env self fs (Inr (blob_data, full_path) # rest) documents =
     (case generate_document env self fs blob_data full_path of
        (fs', Raise e) \<Rightarrow> (fs', Inl e)
      | (fs', Skip) \<Rightarrow> generate_documents_loop env self fs' rest documents
      | (fs', Emit document) \<Rightarrow>
          generate_documents_loop env self fs' rest (documents @ [document]))"

text \<open>\<^verbatim>\<open>_generate_documents\<close>: the iterator is built with
  \<^verbatim>\<open>buffer_size=self._concurrent_requests\<close>.\<close>

definition generate_documents ::
  "environment \<Rightarrow> GithubRepositoryReader \<Rightarrow> filesystem \<Rightarrow> (GitTreeObject \<times> string) list
    \<Rightarrow> filesystem \<times> (error + Document list)" where
  "generate_documents env self fs blobs_and_paths =
     generate_documents_loop env self fs
       (BufferedGitBlobDataIterator env (github_client self) (owner self) (repo self)
          blobs_and_paths (concurrent_requests self))
       []"

subsection \<open>Loading\<close>

text \<open>\<^verbatim>\<open>_load_data_from_commit\<close>, \<^verbatim>\<open>_load_data_from_branch\<close> and \<^verbatim>\<open>load_data\<close>.
  The result is \<open>None\<close> when the tree walk does not return within the fuel.\<close>

definition load_data_from_commit ::
  "environment \<Rightarrow> nat \<Rightarrow> GithubRepositoryReader \<Rightarrow> string \<Rightarrow> api_call list \<Rightarrow> filesystem
    \<Rightarrow> (api_call list \<times> filesystem \<times> (error + Document list)) option" where
  "load_data_from_commit env fuel self commit_sha log fs =
     (case get_commit (github_client self) (owner self) (repo self) commit_sha of
        Inl e \<Rightarrow> Some (log @ [GetCommit (owner self) (repo self) commit_sha], fs, Inl e)
      | Inr tree_sha \<Rightarrow>
          (case recurse_tree env fuel self tree_sha [] 0
                  (log @ [GetCommit (owner self) (repo self) commit_sha]) of
             None \<Rightarrow> None
           | Some (log', Inl e) \<Rightarrow> Some (log', fs, Inl e)
           | Some (log', Inr blobs_and_paths) \<Rightarrow>
               (case generate_documents env self fs blobs_and_paths of
                  (fs', res) \<Rightarrow> Some (log', fs', res))))"

definition load_data_from_branch ::
  "environment \<Rightarrow> nat \<Rightarrow> GithubRepositoryReader \<Rightarrow> string \<Rightarrow> api_call list \<Rightarrow> filesystem
    \<Rightarrow> (api_call list \<times> filesystem \<times> (error + Document list)) option" where
  "load_data_from_branch env fuel self branch log fs =
     (case get_branch (github_client self) (owner self) (repo self) branch of
        Inl e \<Rightarrow> Some (log @ [GetBranch (owner self) (repo self) branch], fs, Inl e)
      | Inr tree_sha \<Rightarrow>
          (case recurse_tree env fuel self tree_sha [] 0
                  (log @ [GetBranch (owner self) (repo self) branch]) of
             None \<Rightarrow> None
           | Some (log', Inl e) \<Rightarrow> Some (log', fs, Inl e)
           | Some (log', Inr blobs_and_paths) \<Rightarrow>
               (case generate_documents env self fs blobs_and_paths of
                  (fs', res) \<Rightarrow> Some (log', fs', res))))"

definition load_data ::
  "environment \<Rightarrow> nat \<Rightarrow> GithubRepositoryReader \<Rightarrow> string option \<Rightarrow> string option
    \<Rightarrow> api_call list \<Rightarrow> filesystem
    \<Rightarrow> (api_call list \<times> filesystem \<times> (error + Document list)) option" where
  "load_data env fuel self commit_sha branch log fs =
     (if commit_sha \<noteq> None \<and> branch \<noteq> None then
        Some (log, fs, Inl (ValueError ''You can only specify one of commit or branch.''))
      else if commit_sha = None \<and> branch = None then
        Some (log, fs, Inl (ValueError ''You must specify one of commit or branch.''))
      else
        (case commit_sha of
           Some c \<Rightarrow> load_data_from_commit env fuel self c log fs
         | None \<Rightarrow>
             (case branch of
                Some b \<Rightarrow> load_data_from_branch env fuel self b log fs
              | None \<Rightarrow>
                  Some (log, fs,
                        Inl (ValueError ''You must specify one of commit or branch.'')))))"

subsection \<open>Finite repositories\<close>


text \<open>A walk that has returned, with a list or with \<^verbatim>\<open>TypeError\<close>.\<close>

definition only_TypeError :: "(api_call list \<times> (error + 'a)) option \<Rightarrow> bool" where
  "only_TypeError res =
     (case res of
        None \<Rightarrow> False
      | Some (log', Inl e) \<Rightarrow> e = TypeError
      | Some (log', Inr x) \<Rightarrow> True)"

subsection \<open>Comparing walks\<close>

text \<open>The same reader with an extension filter that admits every path: excluding
  nothing.\<close>

definition admit_all_extensions :: "GithubRepositoryReader \<Rightarrow> GithubRepositoryReader" where
  "admit_all_extensions self = self\<lparr>filter_file_extensions := Some ([], EXCLUDE)\<rparr>"

text \<open>The blobs of a walk's result whose path passes the reader's extension check.\<close>

definition keep_admitted ::
  "environment \<Rightarrow> GithubRepositoryReader \<Rightarrow> (GitTreeObject \<times> string) list
    \<Rightarrow> (GitTreeObject \<times> string) list" where
  "keep_admitted env self blobs =
     filter (\<lambda>(obj, path). check_filter_file_extensions env self path = Inr True) blobs"

text \<open>The outcome of a walk, with its list reduced to those blobs.\<close>

definition filtered_walk ::
  "environment \<Rightarrow> GithubRepositoryReader
    \<Rightarrow> (api_call list \<times> (error + (GitTreeObject \<times> string) list)) option
    \<Rightarrow> (api_call list \<times> (error + (GitTreeObject \<times> string) list)) option" where
  "filtered_walk env self res =
     (case res of
        None \<Rightarrow> None
      | Some (log', Inl e) \<Rightarrow> Some (log', Inl e)
      | Some (log', Inr blobs) \<Rightarrow> Some (log', Inr (keep_admitted env self blobs)))"

text \<open>The children of a tree the directory filter lets the walk see: the directories it
  rejects are left out, everything else stays.\<close>

definition prune_rejected ::
  "GithubRepositoryReader \<Rightarrow> string \<Rightarrow> GitTreeObject list \<Rightarrow> GitTreeObject list" where
  "prune_rejected self current_path objs =
     filter (\<lambda>obj. if obj_type obj = ''tree''
                    then check_filter_directories self
                           (os_path_join current_path (obj_path obj)) = Inr True
                    else True) objs"

subsection \<open>A small repository and its collaborators\<close>

text \<open>Modelled from the spec: \<^verbatim>\<open>get_file_extension\<close> of the reader's utils module,
  which is not among the sources. The specification has it "extract the file extension
  (substring after the final \<^verbatim>\<open>.\<close>, empty if none)".\<close>

definition spec_get_file_extension :: "string \<Rightarrow> string" where
  "spec_get_file_extension p =
     (if CHR ''.'' \<in> set p then last (str_split CHR ''.'' p) else [])"

text \<open>Modelled from the spec: \<^verbatim>\<open>BufferedGitBlobDataIterator\<close> of the reader's utils
  module, which is not among the sources. The specification has the fetcher retrieve the
  content of every reference and yield it with its path, in completion order (here the
  order of submission, which is one of them), and has "a limit of 0 or negative" fail
  with \<^verbatim>\<open>InvalidConcurrency\<close>. A failing \<^verbatim>\<open>get_blob\<close> is raised to the loop.\<close>

definition spec_BufferedGitBlobDataIterator ::
  "BaseGithubClient \<Rightarrow> string \<Rightarrow> string \<Rightarrow> (GitTreeObject \<times> string) list \<Rightarrow> int
    \<Rightarrow> (error + GitBlobResponseModel \<times> string) list" where
  "spec_BufferedGitBlobDataIterator client own rep blobs_and_paths buffer_size =
     (if buffer_size < 1 then [Inl (Exception ''InvalidConcurrency'')]
      else map (\<lambda>(blob, path).
                  case get_blob client own rep (obj_sha blob) of
                    Inl e \<Rightarrow> Inl e
                  | Inr blob_data \<Rightarrow> Inr (blob_data, path))
             blobs_and_paths)"

text \<open>Python's \<^verbatim>\<open>base64.b64decode\<close> and \<^verbatim>\<open>bytes.decode("utf-8")\<close> on the contents
  of the example: \<^verbatim>\<open>"aGVsbG8="\<close> is \<^verbatim>\<open>b"hello"\<close>, \<^verbatim>\<open>"/w=="\<close> is the byte
  \<^verbatim>\<open>0xff\<close>, which is not UTF-8. No other content occurs in the example.\<close>

definition ex_b64decode :: "string \<Rightarrow> error + bytes" where
  "ex_b64decode s =
     (if s = ''aGVsbG8='' then Inr [104, 101, 108, 108, 111]
      else if s = ''/w=='' then Inr [255]
      else Inl binascii_Error)"

definition ex_utf8_decode :: "bytes \<Rightarrow> string option" where
  "ex_utf8_decode bs = (if bs = [104, 101, 108, 108, 111] then Some ''hello'' else None)"

text \<open>A parser that reads the file it is given, and raises on a file that is missing or
  is not text.\<close>

definition ex_parser :: parser where
  "ex_parser =
     \<lparr> init_parser = None,
       parse_file = (\<lambda>fs p. case fs p of
                               None \<Rightarrow> Inl FileNotFoundError
                             | Some bs \<Rightarrow>
                                 (case ex_utf8_decode bs of
                                    None \<Rightarrow> Inl (Exception ''ParseError'')
                                  | Some t \<Rightarrow> Inr [''# '' @ t, ''end''])) \<rparr>"

text \<open>A parser that raises on every file.\<close>

definition ex_failing_parser :: parser where
  "ex_failing_parser =
     \<lparr> init_parser = None, parse_file = (\<lambda>fs p. Inl (Exception ''ParseError'')) \<rparr>"

definition ex_env :: environment where
  "ex_env =
     \<lparr> get_file_extension = spec_get_file_extension,
       DEFAULT_FILE_EXTRACTOR =
         (\<lambda>ext. if ext = ''md'' then Some ex_parser
                else if ext = ''pdf'' then Some ex_failing_parser
                else None),
       BufferedGitBlobDataIterator = spec_BufferedGitBlobDataIterator,
       b64decode = ex_b64decode,
       utf8_decode = ex_utf8_decode,
       mkdtemp = (\<lambda>fs. ''/tmp/tmpq1w2e3r4''),
       mktemp_name = (\<lambda>fs. ''a1b2c3d4'') \<rparr>"

text \<open>The repository: \<^verbatim>\<open>a.md\<close>, \<^verbatim>\<open>b.png\<close> and \<^verbatim>\<open>docs/c.md\<close>; the blob of the
  last is served with the encoding tag \<^verbatim>\<open>utf-8\<close>.\<close>

definition ex_root :: "GitTreeObject list" where
  "ex_root =
     [\<lparr> obj_path = ''a.md'', obj_type = ''blob'', obj_sha = ''b1'' \<rparr>,
      \<lparr> obj_path = ''b.png'', obj_type = ''blob'', obj_sha = ''b2'' \<rparr>,
      \<lparr> obj_path = ''docs'', obj_type = ''tree'', obj_sha = ''t_docs'' \<rparr>]"

definition ex_client :: BaseGithubClient where
  "ex_client =
     \<lparr> get_commit = (\<lambda>own rep s. if s = ''c0ffee'' then Inr ''t_root''
                                  else Inl (Exception ''ApiError'')),
       get_branch = (\<lambda>own rep b. if b = ''main'' then Inr ''t_root''
                                  else Inl (Exception ''ApiError'')),
       get_tree = (\<lambda>own rep s.
          if s = ''t_root'' then Inr ex_root
          else if s = ''t_docs'' then
            Inr [\<lparr> obj_path = ''c.md'', obj_type = ''blob'', obj_sha = ''b3'' \<rparr>]
          else Inl (Exception ''ApiError'')),
       get_blob = (\<lambda>own rep s.
          if s = ''b1'' then
            Inr \<lparr> blob_content = ''aGVsbG8='', blob_encoding = ''base64'', blob_sha = ''b1'' \<rparr>
          else if s = ''b2'' then
            Inr \<lparr> blob_content = ''/w=='', blob_encoding = ''base64'', blob_sha = ''b2'' \<rparr>
          else if s = ''b3'' then
            Inr \<lparr> blob_content = ''hello'', blob_encoding = ''utf-8'', blob_sha = ''b3'' \<rparr>
          else Inl (Exception ''ApiError'')) \<rparr>"

definition ex_reader ::
  "bool \<Rightarrow> int \<Rightarrow> filter_spec option \<Rightarrow> filter_spec option \<Rightarrow> GithubRepositoryReader" where
  "ex_reader use_p n filter_dirs filter_exts =
     init ex_client ''owner'' ''repo'' use_p False n filter_dirs filter_exts"

text \<open>A second repository, with two directories: \<^verbatim>\<open>a.md\<close>, \<^verbatim>\<open>src/main.py\<close>,
  \<^verbatim>\<open>src/logo.png\<close>, \<^verbatim>\<open>b.png\<close>, \<^verbatim>\<open>docs/c.md\<close> and \<^verbatim>\<open>docs/fig.png\<close>.\<close>

definition ex_root2 :: "GitTreeObject list" where
  "ex_root2 =
     [\<lparr> obj_path = ''a.md'', obj_type = ''blob'', obj_sha = ''b1'' \<rparr>,
      \<lparr> obj_path = ''src'', obj_type = ''tree'', obj_sha = ''t_src'' \<rparr>,
      \<lparr> obj_path = ''b.png'', obj_type = ''blob'', obj_sha = ''b2'' \<rparr>,
      \<lparr> obj_path = ''docs'', obj_type = ''tree'', obj_sha = ''t_docs'' \<rparr>]"

definition ex_client2 :: BaseGithubClient where
  "ex_client2 =
     \<lparr> get_commit = (\<lambda>own rep s. Inl (Exception ''ApiError'')),
       get_branch = (\<lambda>own rep b. Inl (Exception ''ApiError'')),
       get_tree = (\<lambda>own rep s.
          if s = ''t_root'' then Inr ex_root2
          else if s = ''t_src'' then
            Inr [\<lparr> obj_path = ''main.py'', obj_type = ''blob'', obj_sha = ''b4'' \<rparr>,
                 \<lparr> obj_path = ''logo.png'', obj_type = ''blob'', obj_sha = ''b5'' \<rparr>]
          else if s = ''t_docs'' then
            Inr [\<lparr> obj_path = ''c.md'', obj_type = ''blob'', obj_sha = ''b3'' \<rparr>,
                 \<lparr> obj_path = ''fig.png'', obj_type = ''blob'', obj_sha = ''b6'' \<rparr>]
          else Inl (Exception ''ApiError'')),
       get_blob = (\<lambda>own rep s. Inl (Exception ''ApiError'')) \<rparr>"

definition ex_reader2 :: "filter_spec option \<Rightarrow> filter_spec option \<Rightarrow> GithubRepositoryReader" where
  "ex_reader2 filter_dirs filter_exts =
     init ex_client2 ''owner'' ''repo'' True False 5 filter_dirs filter_exts"


text \<open>A parser whose \<^verbatim>\<open>init_parser\<close> raises, registered for \<^verbatim>\<open>img\<close> files.\<close>

definition ex_broken_parser :: parser where
  "ex_broken_parser =
     \<lparr> init_parser = Some (Exception ''ImportError''),
       parse_file = (\<lambda>fs p. Inr []) \<rparr>"

definition ex_env_broken :: environment where
  "ex_env_broken =
     ex_env\<lparr> DEFAULT_FILE_EXTRACTOR :=
               (\<lambda>ext. if ext = ''img'' then Some ex_broken_parser else None) \<rparr>"

lemmas ex_defs = ex_reader_def init_def ex_client_def ex_root_def ex_env_def
  spec_get_file_extension_def spec_BufferedGitBlobDataIterator_def ex_b64decode_def
  ex_utf8_decode_def ex_parser_def ex_failing_parser_def

lemmas ex2_defs = ex_reader2_def init_def ex_client2_def ex_root2_def ex_env_def
  spec_get_file_extension_def

lemmas walk_defs = check_filter_directories_def check_filter_file_extensions_def
  os_path_join_def startswith_def Let_def

section \<open>Properties\<close>

subsection \<open>The filter checks\<close>





text \<open>
  Claim C5, evaluated. Under directory filtering in INCLUDE mode with the directories
  \<^verbatim>\<open>["docs"]\<close>, the path \<^verbatim>\<open>docs/readme.md\<close> is admitted and \<^verbatim>\<open>src/main.go\<close>
  is not. The path \<^verbatim>\<open>doc\<close> is admitted too, where the claim has it rejected: the
  test \<^verbatim>\<open>directory.startswith(tree_obj_path)\<close>, there to let the walk pass through
  the ancestors of a listed directory, compares characters and not path segments, and
  \<^verbatim>\<open>"docs".startswith("doc")\<close> holds although \<^verbatim>\<open>doc\<close> is no ancestor of
  \<^verbatim>\<open>docs\<close>.
\<close>

theorem include_docs_admits:
  "check_filter_directories (self\<lparr>filter_directories := Some ([''docs''], INCLUDE)\<rparr>)
       ''docs/readme.md'' = Inr True
   \<and> check_filter_directories (self\<lparr>filter_directories := Some ([''docs''], INCLUDE)\<rparr>)
       ''src/main.go'' = Inr False
   \<and> check_filter_directories (self\<lparr>filter_directories := Some ([''docs''], INCLUDE)\<rparr>)
       ''doc'' = Inr True"
  by (simp add: check_filter_directories_def startswith_def)

subsection \<open>The tree walk without filters\<close>

text \<open>
  Claim C2, evaluated. With neither filter configured, \<^verbatim>\<open>_allow_tree_obj\<close> admits a
  path, but the walk of the example repository does not complete: its first child is a
  blob, \<^verbatim>\<open>_check_filter_file_extensions\<close> unpacks \<^verbatim>\<open>None\<close>, and the walk raises
  \<^verbatim>\<open>TypeError\<close> after the one \<^verbatim>\<open>get_tree\<close> call.
\<close>

theorem walk_without_filters_raises:
  "recurse_tree ex_env 5 (ex_reader True 5 None None) ''t_root'' [] 0 []
     = Some ([GetTree ''owner'' ''repo'' ''t_root''], Inl TypeError)
   \<and> allow_tree_obj ex_env (ex_reader True 5 None None) ''a.md'' = Inr True"
  by (simp add: eval_nat_numeral ex_defs walk_defs allow_tree_obj_def)


lemma only_TypeError_simps [simp]:
  "only_TypeError None = False"
  "only_TypeError (Some (l, Inl e)) = (e = TypeError)"
  "only_TypeError (Some (l, Inr x)) = True"
  by (simp_all add: only_TypeError_def)









subsection \<open>Selecting what to load\<close>

text \<open>
  Claim C7. \<^verbatim>\<open>load_data\<close> with both a commit sha and a branch raises
  \<^verbatim>\<open>ValueError\<close>, and so it does with neither; in both cases the log of client calls
  and the file system are returned as they were, so nothing was asked of the network.
  With the commit sha alone it is \<^verbatim>\<open>_load_data_from_commit\<close>, with the branch alone
  \<^verbatim>\<open>_load_data_from_branch\<close>.
\<close>

theorem load_data_selector:
  "load_data env fuel self (Some c) (Some b) log fs
       = Some (log, fs, Inl (ValueError ''You can only specify one of commit or branch.''))
   \<and> load_data env fuel self None None log fs
       = Some (log, fs, Inl (ValueError ''You must specify one of commit or branch.''))
   \<and> load_data env fuel self (Some c) None log fs
       = load_data_from_commit env fuel self c log fs
   \<and> load_data env fuel self None (Some b) log fs
       = load_data_from_branch env fuel self b log fs"
  by (simp add: load_data_def)

subsection \<open>The temporary file of a parser\<close>

lemma parse_supported_file_found:
  assumes "DEFAULT_FILE_EXTRACTOR env (get_file_extension env file_path) = Some p"
      and "init_parser p = None"
  shows "parse_supported_file env self fs file_path file_content tree_sha tree_path =
      (rmtree (fs(tmpfile_name_for env fs file_path := None)) (mkdtemp env fs),
       case parse_file p (fs(tmpfile_name_for env fs file_path \<mapsto> file_content))
              (tmpfile_name_for env fs file_path) of
         Inl e \<Rightarrow> Inr None
       | Inr segments \<Rightarrow>
           Inr (Some \<lparr> doc_text = str_join [CHR 0x0A, CHR 0x0A] segments, doc_id = tree_sha,
                       extra_info = [(''file_path'', file_path), (''file_name'', tree_path)] \<rparr>))"
  using assms
  by (simp add: parse_supported_file_def NamedTemporaryFile_def tmpfile_name_for_def os_remove_def
        Let_def split: sum.splits)

lemma rmtree_removed: "fs p = None \<Longrightarrow> rmtree fs d p = None"
  by (simp add: rmtree_def)

lemmas tmp_defs = tmpfile_name_for_def os_path_join_def startswith_def

text \<open>
  Claim C9. When a parser is registered for the path's extension and has been
  initialised, the decoded bytes are in the file of the name \<^verbatim>\<open>tempfile\<close> handed out
  when the parser is invoked on that name; and whether the parser returns segments or
  raises (\<^verbatim>\<open>parsed_file = None\<close>), the file system that
  \<^verbatim>\<open>_parse_supported_file\<close> leaves behind has no file of that name: it is the original
  one with that name removed and the temporary directory emptied.
\<close>

theorem temporary_file_removed:
  assumes "DEFAULT_FILE_EXTRACTOR env (get_file_extension env file_path) = Some p"
      and "init_parser p = None"
  shows "(fs(tmpfile_name_for env fs file_path \<mapsto> file_content))
           (tmpfile_name_for env fs file_path) = Some file_content
    \<and> snd (parse_supported_file env self fs file_path file_content tree_sha tree_path) =
        (case parse_file p (fs(tmpfile_name_for env fs file_path \<mapsto> file_content))
                (tmpfile_name_for env fs file_path) of
           Inl e \<Rightarrow> Inr None
         | Inr segments \<Rightarrow>
             Inr (Some \<lparr> doc_text = str_join [CHR 0x0A, CHR 0x0A] segments, doc_id = tree_sha,
                         extra_info = [(''file_path'', file_path), (''file_name'', tree_path)] \<rparr>))
    \<and> fst (parse_supported_file env self fs file_path file_content tree_sha tree_path)
          (tmpfile_name_for env fs file_path) = None
    \<and> fst (parse_supported_file env self fs file_path file_content tree_sha tree_path) =
        rmtree (fs(tmpfile_name_for env fs file_path := None)) (mkdtemp env fs)"
  by (simp add: parse_supported_file_found [OF assms] rmtree_removed)

text \<open>Claim C9 on the example: the parser of \<^verbatim>\<open>md\<close> files returns on
  \<^verbatim>\<open>b"hello"\<close> and raises on the byte \<^verbatim>\<open>0xff\<close>; the file is gone after both.\<close>

theorem temporary_file_removed_witness:
  "snd (parse_supported_file ex_env (ex_reader True 5 None None) Map.empty ''docs/a.md''
          [104, 101, 108, 108, 111] ''b1'' ''docs/a.md'')
     = Inr (Some \<lparr> doc_text = ''# hello'' @ [CHR 0x0A, CHR 0x0A] @ ''end'', doc_id = ''b1'',
                   extra_info = [(''file_path'', ''docs/a.md''), (''file_name'', ''docs/a.md'')] \<rparr>)
   \<and> fst (parse_supported_file ex_env (ex_reader True 5 None None) Map.empty ''docs/a.md''
          [104, 101, 108, 108, 111] ''b1'' ''docs/a.md'') ''/tmp/tmpq1w2e3r4/tmpa1b2c3d4.md'' = None
   \<and> snd (parse_supported_file ex_env (ex_reader True 5 None None) Map.empty ''docs/a.md''
          [255] ''b2'' ''docs/a.md'') = Inr None
   \<and> fst (parse_supported_file ex_env (ex_reader True 5 None None) Map.empty ''docs/a.md''
          [255] ''b2'' ''docs/a.md'') ''/tmp/tmpq1w2e3r4/tmpa1b2c3d4.md'' = None"
proof -
  have ext: "DEFAULT_FILE_EXTRACTOR ex_env (get_file_extension ex_env ''docs/a.md'')
               = Some ex_parser"
    by (simp add: ex_env_def spec_get_file_extension_def)
  have ini: "init_parser ex_parser = None"
    by (simp add: ex_parser_def)
  have tmp: "tmpfile_name_for ex_env Map.empty ''docs/a.md''
               = ''/tmp/tmpq1w2e3r4/tmpa1b2c3d4.md''"
    by (simp add: tmp_defs ex_env_def spec_get_file_extension_def)
  show ?thesis
    using temporary_file_removed
            [OF ext ini, where fs = Map.empty and file_content = "[104, 101, 108, 108, 111]"
               and self = "ex_reader True 5 None None" and tree_sha = "''b1''"
               and tree_path = "''docs/a.md''"]
          temporary_file_removed
            [OF ext ini, where fs = Map.empty and file_content = "[255]"
               and self = "ex_reader True 5 None None" and tree_sha = "''b2''"
               and tree_path = "''docs/a.md''"]
    by (simp add: tmp ex_parser_def ex_utf8_decode_def rmtree_def)
qed

subsection \<open>Blobs in an encoding other than base64\<close>

text \<open>
  Claim C1, as the code has it. When the loop of \<^verbatim>\<open>_generate_documents\<close> takes a pair
  whose encoding tag is not \<^verbatim>\<open>base64\<close>, the \<^verbatim>\<open>assert\<close> fails:
  \<^verbatim>\<open>_generate_documents\<close> raises \<^verbatim>\<open>AssertionError\<close> with the message
  \<^verbatim>\<open>blob encoding <tag> not supported\<close>, whatever documents it has gathered and
  whatever pairs remain; the blob is not skipped and the loop does not go on.
\<close>

theorem unsupported_encoding_raises:
  "blob_encoding blob_data \<noteq> ''base64'' \<Longrightarrow>
   generate_documents_loop env self fs (Inr (blob_data, full_path) # rest) documents
     = (fs, Inl (AssertionError
                   (''blob encoding '' @ blob_encoding blob_data @ '' not supported'')))"
  by (simp add: generate_document_def)

text \<open>Claim C1 on the example: a blob tagged \<^verbatim>\<open>utf-8\<close> is taken with one document
  gathered and one well-formed blob still to come.\<close>

theorem unsupported_encoding_raises_witness:
  "blob_encoding \<lparr> blob_content = ''hello'', blob_encoding = ''utf-8'', blob_sha = ''b3'' \<rparr>
     \<noteq> ''base64''
   \<and> generate_documents_loop ex_env (ex_reader False 5 None None) Map.empty
       [Inr (\<lparr> blob_content = ''hello'', blob_encoding = ''utf-8'', blob_sha = ''b3'' \<rparr>,
             ''docs/c.md''),
        Inr (\<lparr> blob_content = ''aGVsbG8='', blob_encoding = ''base64'', blob_sha = ''b1'' \<rparr>,
             ''a.md'')]
       [\<lparr> doc_text = ''earlier'', doc_id = ''b0'',
          extra_info = [(''file_path'', ''z.txt''), (''file_name'', ''z.txt'')] \<rparr>]
     = (Map.empty, Inl (AssertionError ''blob encoding utf-8 not supported''))"
  using unsupported_encoding_raises
          [where blob_data = "\<lparr> blob_content = ''hello'', blob_encoding = ''utf-8'',
                                blob_sha = ''b3'' \<rparr>"
             and env = ex_env and self = "ex_reader False 5 None None" and fs = Map.empty
             and full_path = "''docs/c.md''"
             and rest = "[Inr (\<lparr> blob_content = ''aGVsbG8='', blob_encoding = ''base64'',
                                  blob_sha = ''b1'' \<rparr>, ''a.md'')]"
             and documents = "[\<lparr> doc_text = ''earlier'', doc_id = ''b0'',
                 extra_info = [(''file_path'', ''z.txt''), (''file_name'', ''z.txt'')] \<rparr>]"]
  by simp

text \<open>Claim C1 as stated fails: for the blobs of \<^verbatim>\<open>a.md\<close>, \<^verbatim>\<open>docs/c.md\<close> (tagged
  \<^verbatim>\<open>utf-8\<close>) and \<^verbatim>\<open>b.png\<close>, \<^verbatim>\<open>_generate_documents\<close> returns no documents but
  raises.\<close>

theorem skip_unsupported_encoding_counterexample:
  "snd (generate_documents ex_env (ex_reader False 5 None None) Map.empty
       [(\<lparr>obj_path = ''a.md'', obj_type = ''blob'', obj_sha = ''b1''\<rparr>, ''a.md''),
        (\<lparr>obj_path = ''c.md'', obj_type = ''blob'', obj_sha = ''b3''\<rparr>, ''docs/c.md''),
        (\<lparr>obj_path = ''b.png'', obj_type = ''blob'', obj_sha = ''b2''\<rparr>, ''b.png'')])
     = Inl (AssertionError ''blob encoding utf-8 not supported'')"
  by (simp add: generate_documents_def generate_document_def ex_defs)

subsection \<open>A parser that raises\<close>

lemma generate_document_parser_failed:
  assumes "use_parser self" "blob_encoding blob_data = ''base64''"
      and "b64decode env (blob_content blob_data) = Inr raw"
      and "DEFAULT_FILE_EXTRACTOR env (get_file_extension env full_path) = Some p"
      and "init_parser p = None"
      and "parse_file p (fs(tmpfile_name_for env fs full_path \<mapsto> raw))
             (tmpfile_name_for env fs full_path) = Inl e"
  shows "generate_document env self fs blob_data full_path =
     (rmtree (fs(tmpfile_name_for env fs full_path := None)) (mkdtemp env fs),
      case utf8_decode env raw of
        None \<Rightarrow> Skip
      | Some decoded_text \<Rightarrow>
          Emit \<lparr> doc_text = decoded_text, doc_id = blob_sha blob_data,
                 extra_info = [(''file_path'', full_path),
                               (''file_name'', last (str_split CHR ''/'' full_path))] \<rparr>)"
  using assms(1,2,3,6)
  by (simp add: generate_document_def parse_supported_file_found [OF assms(4,5)]
           split: option.splits)

text \<open>
  Claim C6, as the code has it. With \<^verbatim>\<open>use_parser\<close> set, a blob in base64 that
  decodes, a parser registered for the path's extension whose \<^verbatim>\<open>init_parser\<close> has
  returned, and \<^verbatim>\<open>parse_file\<close> raising on the temporary file: the loop does not
  stop. It decodes the same bytes as UTF-8; if that succeeds it appends a document with
  that text, and only if that fails too does it go on without a document for the blob.
  In both cases it continues with the remaining pairs.
\<close>

theorem parser_failure_falls_back:
  assumes "use_parser self" "blob_encoding blob_data = ''base64''"
      and "b64decode env (blob_content blob_data) = Inr raw"
      and "DEFAULT_FILE_EXTRACTOR env (get_file_extension env full_path) = Some p"
      and "init_parser p = None"
      and "parse_file p (fs(tmpfile_name_for env fs full_path \<mapsto> raw))
             (tmpfile_name_for env fs full_path) = Inl e"
  shows "generate_documents_loop env self fs (Inr (blob_data, full_path) # rest) documents =
     generate_documents_loop env self
       (rmtree (fs(tmpfile_name_for env fs full_path := None)) (mkdtemp env fs)) rest
       (case utf8_decode env raw of
          None \<Rightarrow> documents
        | Some decoded_text \<Rightarrow>
            documents @
            [\<lparr> doc_text = decoded_text, doc_id = blob_sha blob_data,
               extra_info = [(''file_path'', full_path),
                             (''file_name'', last (str_split CHR ''/'' full_path))] \<rparr>])"
  by (simp add: generate_document_parser_failed [OF assms] split: option.splits)

text \<open>Claim C6 on the example: the parser of \<^verbatim>\<open>pdf\<close> files raises on both blobs;
  \<^verbatim>\<open>b"hello"\<close> becomes a document by the fallback, the byte \<^verbatim>\<open>0xff\<close> is
  skipped, and the loop ends normally.\<close>

theorem parser_failure_falls_back_witness:
  "generate_documents_loop ex_env (ex_reader True 5 None None) Map.empty
      [Inr (\<lparr> blob_content = ''aGVsbG8='', blob_encoding = ''base64'', blob_sha = ''b1'' \<rparr>,
            ''docs/guide.pdf''),
       Inr (\<lparr> blob_content = ''/w=='', blob_encoding = ''base64'', blob_sha = ''b2'' \<rparr>,
            ''docs/bad.pdf'')] []
    = (Map.empty,
       Inr [\<lparr> doc_text = ''hello'', doc_id = ''b1'',
               extra_info = [(''file_path'', ''docs/guide.pdf''), (''file_name'', ''guide.pdf'')] \<rparr>])"
proof -
  let ?b1 = "\<lparr> blob_content = ''aGVsbG8='', blob_encoding = ''base64'', blob_sha = ''b1'' \<rparr>"
  let ?b2 = "\<lparr> blob_content = ''/w=='', blob_encoding = ''base64'', blob_sha = ''b2'' \<rparr>"
  let ?self = "ex_reader True 5 None None"
  have use: "use_parser ?self" by (simp add: ex_reader_def init_def)
  have ext: "\<And>q. q \<in> {''docs/guide.pdf'', ''docs/bad.pdf''} \<Longrightarrow>
      DEFAULT_FILE_EXTRACTOR ex_env (get_file_extension ex_env q) = Some ex_failing_parser"
    by (auto simp: ex_env_def spec_get_file_extension_def)
  have ini: "init_parser ex_failing_parser = None" by (simp add: ex_failing_parser_def)
  have fails: "\<And>fs q. parse_file ex_failing_parser fs q = Inl (Exception ''ParseError'')"
    by (simp add: ex_failing_parser_def)
  have d1: "b64decode ex_env (blob_content ?b1) = Inr [104, 101, 108, 108, 111]"
    by (simp add: ex_env_def ex_b64decode_def)
  have d2: "b64decode ex_env (blob_content ?b2) = Inr [255]"
    by (simp add: ex_env_def ex_b64decode_def)
  have u: "utf8_decode ex_env [104, 101, 108, 108, 111] = Some ''hello''"
          "utf8_decode ex_env [255] = None"
    by (simp_all add: ex_env_def ex_utf8_decode_def)
  have empty: "\<And>d. rmtree Map.empty d = Map.empty"
    by (auto simp: rmtree_def)
  have step1: "generate_documents_loop ex_env ?self Map.empty
      [Inr (?b1, ''docs/guide.pdf''), Inr (?b2, ''docs/bad.pdf'')] []
     = generate_documents_loop ex_env ?self Map.empty [Inr (?b2, ''docs/bad.pdf'')]
         [\<lparr> doc_text = ''hello'', doc_id = ''b1'',
            extra_info = [(''file_path'', ''docs/guide.pdf''), (''file_name'', ''guide.pdf'')] \<rparr>]"
    using parser_failure_falls_back [OF use _ d1 ext ini fails, where fs = Map.empty and full_path = "''docs/guide.pdf''"
                and rest = "[Inr (?b2, ''docs/bad.pdf'')]" and documents = "[]"]
    by (simp add: u empty del: generate_documents_loop.simps)
  have "\<And>docs. generate_documents_loop ex_env ?self Map.empty [Inr (?b2, ''docs/bad.pdf'')] docs
     = generate_documents_loop ex_env ?self Map.empty [] docs"
    using parser_failure_falls_back [OF use _ d2 ext ini fails, where fs = Map.empty and full_path = "''docs/bad.pdf''"
                and rest = "[]"]
    by (simp add: u empty del: generate_documents_loop.simps)
  then have step2: "\<And>docs. generate_documents_loop ex_env ?self Map.empty
                       [Inr (?b2, ''docs/bad.pdf'')] docs = (Map.empty, Inr docs)"
    by simp
  show ?thesis by (simp only: step1 step2)
qed

text \<open>Claim C6 as stated fails for a registered parser that raises in
  \<^verbatim>\<open>init_parser\<close>, which is called before the \<^verbatim>\<open>try\<close>: the exception leaves
  \<^verbatim>\<open>_generate_documents\<close>, and the blob after it is not reached.\<close>

theorem parser_init_failure_counterexample:
  "generate_documents_loop ex_env_broken (ex_reader True 5 None None) Map.empty
      [Inr (\<lparr> blob_content = ''aGVsbG8='', blob_encoding = ''base64'', blob_sha = ''b1'' \<rparr>,
            ''logo.img''),
       Inr (\<lparr> blob_content = ''aGVsbG8='', blob_encoding = ''base64'', blob_sha = ''b1'' \<rparr>,
            ''notes.txt'')] []
    = (Map.empty, Inl (Exception ''ImportError''))"
  by (simp add: generate_document_def parse_supported_file_def ex_env_broken_def
        ex_broken_parser_def ex_defs)

subsection \<open>The metadata of a document\<close>

text \<open>
  Claim C8. A document the loop body emits carries the blob's sha as \<^verbatim>\<open>doc_id\<close> and
  the full path as \<^verbatim>\<open>file_path\<close>. If it is the one \<^verbatim>\<open>_parse_supported_file\<close>
  returned (the parser path), its \<^verbatim>\<open>file_name\<close> is the full path; otherwise it is the
  UTF-8 decoding of the blob's bytes (the fallback path) and its \<^verbatim>\<open>file_name\<close> is
  the last segment of the path, \<^verbatim>\<open>full_path.split("/")[-1]\<close>.
\<close>

theorem document_metadata:
  assumes "generate_document env self fs blob_data full_path = (fs', Emit document)"
  shows "doc_id document = blob_sha blob_data
    \<and> (\<exists>raw. b64decode env (blob_content blob_data) = Inr raw
          \<and> (case (if use_parser self
                    then snd (parse_supported_file env self fs full_path raw
                                (blob_sha blob_data) full_path)
                    else Inr None) of
                Inr (Some parsed) \<Rightarrow>
                  document = parsed
                  \<and> extra_info document
                      = [(''file_path'', full_path), (''file_name'', full_path)]
              | other \<Rightarrow>
                  utf8_decode env raw = Some (doc_text document)
                  \<and> extra_info document
                      = [(''file_path'', full_path),
                         (''file_name'', last (str_split CHR ''/'' full_path))]))"
  using assms
  by (auto simp: generate_document_def parse_supported_file_def Let_def
                 NamedTemporaryFile_def os_remove_def
           split: if_splits sum.splits option.splits prod.splits)

text \<open>Claim C8 on the example: \<^verbatim>\<open>docs/a.md\<close> goes through the parser and keeps its
  full path as \<^verbatim>\<open>file_name\<close>; \<^verbatim>\<open>docs/notes.txt\<close> has no parser and gets
  \<^verbatim>\<open>notes.txt\<close>.\<close>

theorem document_metadata_witness:
  "snd (generate_document ex_env (ex_reader True 5 None None) Map.empty
      \<lparr> blob_content = ''aGVsbG8='', blob_encoding = ''base64'', blob_sha = ''b1'' \<rparr> ''docs/a.md'')
    = Emit \<lparr> doc_text = ''# hello'' @ [CHR 0x0A, CHR 0x0A] @ ''end'', doc_id = ''b1'',
             extra_info = [(''file_path'', ''docs/a.md''), (''file_name'', ''docs/a.md'')] \<rparr>
   \<and> snd (generate_document ex_env (ex_reader True 5 None None) Map.empty
      \<lparr> blob_content = ''aGVsbG8='', blob_encoding = ''base64'', blob_sha = ''b1'' \<rparr> ''docs/notes.txt'')
    = Emit \<lparr> doc_text = ''hello'', doc_id = ''b1'',
             extra_info = [(''file_path'', ''docs/notes.txt''), (''file_name'', ''notes.txt'')] \<rparr>
   \<and> doc_id \<lparr> doc_text = ''hello'', doc_id = ''b1'',
             extra_info = [(''file_path'', ''docs/notes.txt''), (''file_name'', ''notes.txt'')] \<rparr>
      = blob_sha \<lparr> blob_content = ''aGVsbG8='', blob_encoding = ''base64'', blob_sha = ''b1'' \<rparr>"
proof -
  let ?b1 = "\<lparr> blob_content = ''aGVsbG8='', blob_encoding = ''base64'', blob_sha = ''b1'' \<rparr>"
  let ?self = "ex_reader True 5 None None"
  let ?d1 = "\<lparr> doc_text = ''# hello'' @ [CHR 0x0A, CHR 0x0A] @ ''end'', doc_id = ''b1'',
             extra_info = [(''file_path'', ''docs/a.md''), (''file_name'', ''docs/a.md'')] \<rparr>"
  let ?d2 = "\<lparr> doc_text = ''hello'', doc_id = ''b1'',
             extra_info = [(''file_path'', ''docs/notes.txt''), (''file_name'', ''notes.txt'')] \<rparr>"
  have e1: "snd (generate_document ex_env ?self Map.empty ?b1 ''docs/a.md'') = Emit ?d1"
    by (simp add: generate_document_def parse_supported_file_def NamedTemporaryFile_def
          os_remove_def ex_defs os_path_join_def startswith_def Let_def)
  have e2: "snd (generate_document ex_env ?self Map.empty ?b1 ''docs/notes.txt'') = Emit ?d2"
    by (simp add: generate_document_def parse_supported_file_def ex_defs Let_def)
  have p1: "generate_document ex_env ?self Map.empty ?b1 ''docs/a.md''
       = (fst (generate_document ex_env ?self Map.empty ?b1 ''docs/a.md''), Emit ?d1)"
    using e1 by (metis prod.collapse)
  have p2: "generate_document ex_env ?self Map.empty ?b1 ''docs/notes.txt''
       = (fst (generate_document ex_env ?self Map.empty ?b1 ''docs/notes.txt''), Emit ?d2)"
    using e2 by (metis prod.collapse)
  show ?thesis
    using document_metadata [OF p1] document_metadata [OF p2] e1 e2 by simp
qed

subsection \<open>The walk with both filters\<close>

lemma filtered_walk_simps [simp]:
  "filtered_walk env self None = None"
  "filtered_walk env self (Some (l, Inl e)) = Some (l, Inl e)"
  "filtered_walk env self (Some (l, Inr blobs)) = Some (l, Inr (keep_admitted env self blobs))"
  by (simp_all add: filtered_walk_def)

lemma keep_admitted_append [simp]:
  "keep_admitted env self (xs @ ys) = keep_admitted env self xs @ keep_admitted env self ys"
  by (simp add: keep_admitted_def)

lemma keep_admitted_Nil [simp]: "keep_admitted env self [] = []"
  by (simp add: keep_admitted_def)

lemma keep_admitted_single:
  "keep_admitted env self [(obj, path)] =
     (if check_filter_file_extensions env self path = Inr True then [(obj, path)] else [])"
  by (simp add: keep_admitted_def)

lemma admit_all_directories [simp]:
  "check_filter_directories (admit_all_extensions self) p = check_filter_directories self p"
  by (simp add: check_filter_directories_def admit_all_extensions_def)

lemma admit_all_admits [simp]:
  "check_filter_file_extensions env (admit_all_extensions self) p = Inr True"
  by (simp add: check_filter_file_extensions_def admit_all_extensions_def)

lemma admit_all_client [simp]:
  "github_client (admit_all_extensions self) = github_client self"
  "owner (admit_all_extensions self) = owner self"
  "repo (admit_all_extensions self) = repo self"
  by (simp_all add: admit_all_extensions_def)

lemma configured_extensions_bool:
  "filter_file_extensions self = Some exts \<Longrightarrow>
     \<exists>b. check_filter_file_extensions env self p = Inr b"
  by (cases exts) (auto simp: check_filter_file_extensions_def split: FilterType.splits)

lemma loop_filtered:
  assumes exts: "filter_file_extensions self = Some exts"
      and walk: "\<And>sha cp d log. recurse_tree env n self sha cp d log
                   = filtered_walk env self (recurse_tree env n (admit_all_extensions self) sha cp d log)"
  shows "recurse_tree_loop env n self cp d objs (keep_admitted env self acc) log
         = filtered_walk env self
             (recurse_tree_loop env n (admit_all_extensions self) cp d objs acc log)"
proof (induction objs arbitrary: acc log)
  case Nil
  show ?case by simp
next
  case (Cons obj objs)
  let ?fp = "os_path_join cp (obj_path obj)"
  show ?case
  proof (cases "obj_type obj = ''tree''")
    case True
    show ?thesis
    proof (cases "check_filter_directories self ?fp")
      case (Inl e)
      then show ?thesis using True by (simp add: Let_def)
    next
      case (Inr b)
      show ?thesis
      proof (cases b)
        case False
        then show ?thesis using True Inr Cons.IH by (simp add: Let_def)
      next
        case bt: True
        show ?thesis
        proof (cases "recurse_tree env n (admit_all_extensions self) (obj_sha obj) ?fp (d + 1) log")
          case None
          then show ?thesis using True Inr bt walk by (simp add: Let_def)
        next
          case (Some r)
          obtain l res where r: "r = (l, res)" by (cases r)
          show ?thesis
          proof (cases res)
            case (Inl e)
            then show ?thesis using True Inr bt walk Some r by (simp add: Let_def)
          next
            case sub: (Inr sub)
            have "recurse_tree_loop env n self cp d objs (keep_admitted env self (acc @ sub)) l
                  = filtered_walk env self
                     (recurse_tree_loop env n (admit_all_extensions self) cp d objs (acc @ sub) l)"
              by (rule Cons.IH)
            then show ?thesis using True Inr bt walk Some r sub by (simp add: Let_def)
          qed
        qed
      qed
    qed
  next
    case nt: False
    show ?thesis
    proof (cases "obj_type obj = ''blob''")
      case True
      obtain b where b: "check_filter_file_extensions env self ?fp = Inr b"
        using configured_extensions_bool [OF exts] by blast
      have "recurse_tree_loop env n self cp d objs
               (keep_admitted env self (acc @ [(obj, ?fp)])) log
            = filtered_walk env self
               (recurse_tree_loop env n (admit_all_extensions self) cp d objs
                  (acc @ [(obj, ?fp)]) log)"
        by (rule Cons.IH)
      then show ?thesis
        using nt True b by (cases b) (simp_all add: Let_def keep_admitted_single)
    next
      case False
      then show ?thesis using nt Cons.IH by (simp add: Let_def)
    qed
  qed
qed

lemma walk_filtered:
  assumes exts: "filter_file_extensions self = Some exts"
  shows "recurse_tree env n self sha cp d log
         = filtered_walk env self (recurse_tree env n (admit_all_extensions self) sha cp d log)"
proof (induction n arbitrary: sha cp d log)
  case 0
  show ?case by simp
next
  case (Suc n)
  have loop: "\<And>objs log. recurse_tree_loop env n self cp d objs [] log
         = filtered_walk env self
             (recurse_tree_loop env n (admit_all_extensions self) cp d objs [] log)"
    using loop_filtered [OF exts Suc.IH, where acc = "[]"] by simp
  show ?case
    by (simp add: loop split: sum.splits)
qed

lemma configured_directories_bool:
  "filter_directories self = Some dirs \<Longrightarrow> \<exists>b. check_filter_directories self p = Inr b"
  by (cases dirs) (auto simp: check_filter_directories_def split: FilterType.splits)

lemma loop_pruned:
  assumes dirs: "filter_directories self = Some dirs"
  shows "recurse_tree_loop env fuel self cp d objs acc log
         = recurse_tree_loop env fuel self cp d (prune_rejected self cp objs) acc log"
proof (induction objs arbitrary: acc log)
  case Nil
  show ?case by (simp add: prune_rejected_def)
next
  case (Cons obj objs)
  let ?fp = "os_path_join cp (obj_path obj)"
  have IH: "\<And>acc log. recurse_tree_loop env fuel self cp d objs acc log
         = recurse_tree_loop env fuel self cp d (prune_rejected self cp objs) acc log"
    by (rule Cons.IH)
  have cons_keep: "\<And>P. P \<Longrightarrow> (if obj_type obj = ''tree''
                     then check_filter_directories self ?fp = Inr True else True)
             \<Longrightarrow> prune_rejected self cp (obj # objs) = obj # prune_rejected self cp objs"
    by (simp add: prune_rejected_def)
  show ?case
  proof (cases "obj_type obj = ''tree''")
    case True
    obtain b where b: "check_filter_directories self ?fp = Inr b"
      using configured_directories_bool [OF dirs] by blast
    show ?thesis
    proof (cases b)
      case False
      then have "prune_rejected self cp (obj # objs) = prune_rejected self cp objs"
        using True b by (simp add: prune_rejected_def)
      then show ?thesis using True b False IH by (simp add: Let_def)
    next
      case bt: True
      then have "prune_rejected self cp (obj # objs) = obj # prune_rejected self cp objs"
        using True b by (simp add: prune_rejected_def)
      then show ?thesis using True b bt IH
        by (simp add: Let_def split: option.splits sum.splits prod.splits)
    qed
  next
    case False
    then have "prune_rejected self cp (obj # objs) = obj # prune_rejected self cp objs"
      by (simp add: prune_rejected_def)
    then show ?thesis using False IH
      by (simp add: Let_def split: sum.splits bool.splits)
  qed
qed

text \<open>
  Claim C3, as the code has it. With both filters configured the walk applies both. The
  directory filter decides which subtrees are descended into: the loop over the children
  of a tree runs as if the directories the filter rejects were not listed (they are not
  fetched and add nothing), and for a directory the filter admits it walks the subtree,
  under the joined path, before it goes on. The extension filter decides which blobs are
  kept: the outcome of the walk is that of the walk with the same directory filter and
  an extension filter admitting every path (same log of fetches, same exception if any),
  with the blobs removed whose path fails the extension check.
\<close>

theorem walk_applies_both_filters:
  assumes "filter_directories self = Some dirs" and "filter_file_extensions self = Some exts"
  shows "recurse_tree env fuel self tree_sha current_path current_depth log
           = filtered_walk env self
               (recurse_tree env fuel (admit_all_extensions self)
                  tree_sha current_path current_depth log)
    \<and> recurse_tree_loop env fuel self current_path current_depth objs acc log
           = recurse_tree_loop env fuel self current_path current_depth
               (prune_rejected self current_path objs) acc log
    \<and> (obj_type obj = ''tree''
        \<and> check_filter_directories self (os_path_join current_path (obj_path obj)) = Inr True
       \<longrightarrow> recurse_tree_loop env fuel self current_path current_depth (obj # rest) acc log
           = (case recurse_tree env fuel self (obj_sha obj)
                     (os_path_join current_path (obj_path obj)) (current_depth + 1) log of
                None \<Rightarrow> None
              | Some (log', Inl e) \<Rightarrow> Some (log', Inl e)
              | Some (log', Inr sub) \<Rightarrow>
                  recurse_tree_loop env fuel self current_path current_depth rest
                    (acc @ sub) log'))"
proof (intro conjI impI)
  show "recurse_tree env fuel self tree_sha current_path current_depth log
           = filtered_walk env self
               (recurse_tree env fuel (admit_all_extensions self)
                  tree_sha current_path current_depth log)"
    by (rule walk_filtered [OF assms(2)])
  show "recurse_tree_loop env fuel self current_path current_depth objs acc log
           = recurse_tree_loop env fuel self current_path current_depth
               (prune_rejected self current_path objs) acc log"
    by (rule loop_pruned [OF assms(1)])
next
  assume "obj_type obj = ''tree''
        \<and> check_filter_directories self (os_path_join current_path (obj_path obj)) = Inr True"
  then show "recurse_tree_loop env fuel self current_path current_depth (obj # rest) acc log
           = (case recurse_tree env fuel self (obj_sha obj)
                     (os_path_join current_path (obj_path obj)) (current_depth + 1) log of
                None \<Rightarrow> None
              | Some (log', Inl e) \<Rightarrow> Some (log', Inl e)
              | Some (log', Inr sub) \<Rightarrow>
                  recurse_tree_loop env fuel self current_path current_depth rest
                    (acc @ sub) log')"
    by (simp add: Let_def)
qed

text \<open>Claim C3 on the second repository, with the directory \<^verbatim>\<open>src\<close> excluded and the
  extensions \<^verbatim>\<open>png\<close> and \<^verbatim>\<open>.png\<close> excluded: \<^verbatim>\<open>src\<close> is not fetched,
  \<^verbatim>\<open>docs\<close> is, and the two images outside \<^verbatim>\<open>src\<close> are dropped.\<close>

theorem walk_applies_both_filters_witness:
  "filter_directories (ex_reader2 (Some ([''src''], EXCLUDE)) (Some ([''png'', ''.png''], EXCLUDE)))
     = Some ([''src''], EXCLUDE)
   \<and> filter_file_extensions
       (ex_reader2 (Some ([''src''], EXCLUDE)) (Some ([''png'', ''.png''], EXCLUDE)))
     = Some ([''png'', ''.png''], EXCLUDE)
   \<and> recurse_tree ex_env 5
       (ex_reader2 (Some ([''src''], EXCLUDE)) (Some ([''png'', ''.png''], EXCLUDE)))
       ''t_root'' [] 0 []
     = Some ([GetTree ''owner'' ''repo'' ''t_root'', GetTree ''owner'' ''repo'' ''t_docs''],
         Inr [(\<lparr>obj_path = ''a.md'', obj_type = ''blob'', obj_sha = ''b1''\<rparr>, ''a.md''),
              (\<lparr>obj_path = ''c.md'', obj_type = ''blob'', obj_sha = ''b3''\<rparr>, ''docs/c.md'')])
   \<and> recurse_tree_loop ex_env 4
       (ex_reader2 (Some ([''src''], EXCLUDE)) (Some ([''png'', ''.png''], EXCLUDE)))
       [] 0 ex_root2 [] []
     = recurse_tree_loop ex_env 4
       (ex_reader2 (Some ([''src''], EXCLUDE)) (Some ([''png'', ''.png''], EXCLUDE)))
       [] 0
       [\<lparr> obj_path = ''a.md'', obj_type = ''blob'', obj_sha = ''b1'' \<rparr>,
        \<lparr> obj_path = ''b.png'', obj_type = ''blob'', obj_sha = ''b2'' \<rparr>,
        \<lparr> obj_path = ''docs'', obj_type = ''tree'', obj_sha = ''t_docs'' \<rparr>] [] []
   \<and> check_filter_directories
       (ex_reader2 (Some ([''src''], EXCLUDE)) (Some ([''png'', ''.png''], EXCLUDE)))
       (os_path_join [] ''docs'') = Inr True
   \<and> recurse_tree_loop ex_env 4
       (ex_reader2 (Some ([''src''], EXCLUDE)) (Some ([''png'', ''.png''], EXCLUDE)))
       [] 0 [\<lparr> obj_path = ''docs'', obj_type = ''tree'', obj_sha = ''t_docs'' \<rparr>] [] []
     = Some ([GetTree ''owner'' ''repo'' ''t_docs''],
         Inr [(\<lparr>obj_path = ''c.md'', obj_type = ''blob'', obj_sha = ''b3''\<rparr>, ''docs/c.md'')])"
proof -
  let ?self = "ex_reader2 (Some ([''src''], EXCLUDE)) (Some ([''png'', ''.png''], EXCLUDE))"
  let ?docs = "\<lparr> obj_path = ''docs'', obj_type = ''tree'', obj_sha = ''t_docs'' \<rparr>"
  have d: "filter_directories ?self = Some ([''src''], EXCLUDE)"
    by (simp add: ex_reader2_def init_def)
  have e: "filter_file_extensions ?self = Some ([''png'', ''.png''], EXCLUDE)"
    by (simp add: ex_reader2_def init_def)
  have all: "recurse_tree ex_env 5 (admit_all_extensions ?self) ''t_root'' [] 0 []
     = Some ([GetTree ''owner'' ''repo'' ''t_root'', GetTree ''owner'' ''repo'' ''t_docs''],
         Inr [(\<lparr>obj_path = ''a.md'', obj_type = ''blob'', obj_sha = ''b1''\<rparr>, ''a.md''),
              (\<lparr>obj_path = ''b.png'', obj_type = ''blob'', obj_sha = ''b2''\<rparr>, ''b.png''),
              (\<lparr>obj_path = ''c.md'', obj_type = ''blob'', obj_sha = ''b3''\<rparr>, ''docs/c.md''),
              (\<lparr>obj_path = ''fig.png'', obj_type = ''blob'', obj_sha = ''b6''\<rparr>,
               ''docs/fig.png'')])"
    by (simp add: eval_nat_numeral admit_all_extensions_def ex2_defs walk_defs)
  have keep: "keep_admitted ex_env ?self
        [(\<lparr>obj_path = ''a.md'', obj_type = ''blob'', obj_sha = ''b1''\<rparr>, ''a.md''),
         (\<lparr>obj_path = ''b.png'', obj_type = ''blob'', obj_sha = ''b2''\<rparr>, ''b.png''),
         (\<lparr>obj_path = ''c.md'', obj_type = ''blob'', obj_sha = ''b3''\<rparr>, ''docs/c.md''),
         (\<lparr>obj_path = ''fig.png'', obj_type = ''blob'', obj_sha = ''b6''\<rparr>, ''docs/fig.png'')]
      = [(\<lparr>obj_path = ''a.md'', obj_type = ''blob'', obj_sha = ''b1''\<rparr>, ''a.md''),
         (\<lparr>obj_path = ''c.md'', obj_type = ''blob'', obj_sha = ''b3''\<rparr>, ''docs/c.md'')]"
    by (simp add: keep_admitted_def check_filter_file_extensions_def ex2_defs)
  have pruned: "prune_rejected ?self [] ex_root2
      = [\<lparr> obj_path = ''a.md'', obj_type = ''blob'', obj_sha = ''b1'' \<rparr>,
         \<lparr> obj_path = ''b.png'', obj_type = ''blob'', obj_sha = ''b2'' \<rparr>, ?docs]"
    by (simp add: prune_rejected_def ex2_defs walk_defs)
  have admitted: "check_filter_directories ?self (os_path_join [] ''docs'') = Inr True"
    by (simp add: ex2_defs walk_defs)
  have sub: "recurse_tree ex_env 4 ?self ''t_docs'' (os_path_join [] ''docs'') (0 + 1) []
     = Some ([GetTree ''owner'' ''repo'' ''t_docs''],
         Inr [(\<lparr>obj_path = ''c.md'', obj_type = ''blob'', obj_sha = ''b3''\<rparr>, ''docs/c.md'')])"
    by (simp add: eval_nat_numeral ex2_defs walk_defs)
  note inst = walk_applies_both_filters [OF d e, where env = ex_env and current_path = "[]" and current_depth = 0
                    and log = "[]" and acc = "[]" and obj = ?docs and rest = "[]"]
  have c1: "recurse_tree ex_env 5 ?self ''t_root'' [] 0 []
     = Some ([GetTree ''owner'' ''repo'' ''t_root'', GetTree ''owner'' ''repo'' ''t_docs''],
         Inr [(\<lparr>obj_path = ''a.md'', obj_type = ''blob'', obj_sha = ''b1''\<rparr>, ''a.md''),
              (\<lparr>obj_path = ''c.md'', obj_type = ''blob'', obj_sha = ''b3''\<rparr>, ''docs/c.md'')])"
    using inst [where fuel = 5 and tree_sha = "''t_root''"] by (simp add: all keep)
  have c2: "recurse_tree_loop ex_env 4 ?self [] 0 ex_root2 [] []
     = recurse_tree_loop ex_env 4 ?self [] 0
       [\<lparr> obj_path = ''a.md'', obj_type = ''blob'', obj_sha = ''b1'' \<rparr>,
        \<lparr> obj_path = ''b.png'', obj_type = ''blob'', obj_sha = ''b2'' \<rparr>, ?docs] [] []"
    using inst [where fuel = 4 and objs = ex_root2] by (simp only: pruned)
  have c3: "recurse_tree_loop ex_env 4 ?self [] 0 [?docs] [] []
     = Some ([GetTree ''owner'' ''repo'' ''t_docs''],
         Inr [(\<lparr>obj_path = ''c.md'', obj_type = ''blob'', obj_sha = ''b3''\<rparr>, ''docs/c.md'')])"
    using inst [where fuel = 4] admitted sub by simp
  show ?thesis using d e c1 c2 c3 admitted by simp
qed

text \<open>Claim C3 as stated fails: with the same directory filter, the extension filter
  removes \<^verbatim>\<open>b.png\<close> and \<^verbatim>\<open>docs/fig.png\<close> from the walk's result. The excluded
  list holds the extension with and without its dot, so that the blobs are rejected
  whichever of the two \<^verbatim>\<open>get_file_extension\<close> returns.\<close>

theorem extension_filter_noop_counterexample:
  "recurse_tree ex_env 5
       (ex_reader2 (Some ([''src''], EXCLUDE)) (Some ([''png'', ''.png''], EXCLUDE)))
       ''t_root'' [] 0 []
     = Some ([GetTree ''owner'' ''repo'' ''t_root'', GetTree ''owner'' ''repo'' ''t_docs''],
         Inr [(\<lparr>obj_path = ''a.md'', obj_type = ''blob'', obj_sha = ''b1''\<rparr>, ''a.md''),
              (\<lparr>obj_path = ''c.md'', obj_type = ''blob'', obj_sha = ''b3''\<rparr>, ''docs/c.md'')])
   \<and> recurse_tree ex_env 5
       (ex_reader2 (Some ([''src''], EXCLUDE)) (Some ([], EXCLUDE)))
       ''t_root'' [] 0 []
     = Some ([GetTree ''owner'' ''repo'' ''t_root'', GetTree ''owner'' ''repo'' ''t_docs''],
         Inr [(\<lparr>obj_path = ''a.md'', obj_type = ''blob'', obj_sha = ''b1''\<rparr>, ''a.md''),
              (\<lparr>obj_path = ''b.png'', obj_type = ''blob'', obj_sha = ''b2''\<rparr>, ''b.png''),
              (\<lparr>obj_path = ''c.md'', obj_type = ''blob'', obj_sha = ''b3''\<rparr>, ''docs/c.md''),
              (\<lparr>obj_path = ''fig.png'', obj_type = ''blob'', obj_sha = ''b6''\<rparr>,
               ''docs/fig.png'')])"
  by (simp add: eval_nat_numeral ex2_defs walk_defs)

subsection \<open>The concurrency limit\<close>






end
